theory Spec2Isabelle
  imports Main
begin

section \<open>Launch lifecycle of cmd/vinegar/binary.go\<close>

text \<open>
  A shallow embedding of \<^verbatim>\<open>cmd/vinegar/binary.go\<close>. Every method of \<^verbatim>\<open>Binary\<close>
  becomes a function that takes the receiver, the arguments and the outcomes of the
  collaborators it calls, and returns its result together with the receiver as it has
  been mutated and the list of effects in program order.
\<close>

subsection \<open>Strings\<close>

text \<open>\<^verbatim>\<open>strings.HasPrefix\<close> and \<^verbatim>\<open>strings.Contains\<close> on byte strings.\<close>

fun HasPrefix :: "string \<Rightarrow> string \<Rightarrow> bool" where
  "HasPrefix s [] = True"
| "HasPrefix [] (p # ps) = False"
| "HasPrefix (c # cs) (p # ps) = (c = p \<and> HasPrefix cs ps)"

fun Contains :: "string \<Rightarrow> string \<Rightarrow> bool" where
  "Contains [] sub = HasPrefix [] sub"
| "Contains (c # cs) sub = (HasPrefix (c # cs) sub \<or> Contains cs sub)"

text \<open>
  \<^verbatim>\<open>strings.Split(s, sep)\<close> for the one-byte separators the source passes
  (\<^verbatim>\<open>"+"\<close> and \<^verbatim>\<open>":"\<close>): the pieces between the separators, in order, empty pieces
  kept; a string without the separator is its own single piece. \<open>splitFrom\<close> carries the
  piece being read.
\<close>

fun splitFrom :: "char \<Rightarrow> string \<Rightarrow> string \<Rightarrow> string list" where
  "splitFrom sep cur [] = [cur]"
| "splitFrom sep cur (c # cs) =
     (if c = sep then cur # splitFrom sep [] cs else splitFrom sep (cur @ [c]) cs)"

definition Split :: "string \<Rightarrow> char \<Rightarrow> string list" where
  "Split s sep = splitFrom sep [] s"

text \<open>\<^verbatim>\<open>strings.Join(elems, sep)\<close>.\<close>

fun Join :: "string list \<Rightarrow> string \<Rightarrow> string" where
  "Join [] sep = []"
| "Join [x] sep = x"
| "Join (x # y # ys) sep = x @ sep @ Join (y # ys) sep"

text \<open>
  \<^verbatim>\<open>strings.Fields(s)\<close>, as the Go library has it. A string of ASCII bytes only is cut
  at the bytes of the table \<^verbatim>\<open>asciiSpace\<close> (tab, line feed, vertical tab, form feed,
  carriage return, space). A string with a byte of \<^verbatim>\<open>0x80\<close> or more goes to
  \<^verbatim>\<open>FieldsFunc(s, unicode.IsSpace)\<close>, which decodes the string rune by rune as UTF-8
  and cuts at the runes that are white space in Unicode.
\<close>

definition asciiSpace :: "char \<Rightarrow> bool" where
  "asciiSpace c = (c = CHR 0x09 \<or> c = CHR 0x0A \<or> c = CHR 0x0B \<or> c = CHR 0x0C
                   \<or> c = CHR 0x0D \<or> c = CHR '' '')"

text \<open>The ASCII path: \<open>cur\<close> is the field being read, empty between fields.\<close>

fun fieldsFrom :: "string \<Rightarrow> string \<Rightarrow> string list" where
  "fieldsFrom cur [] = (if cur = [] then [] else [cur])"
| "fieldsFrom cur (c # cs) =
     (if asciiSpace c then (if cur = [] then fieldsFrom [] cs else cur # fieldsFrom [] cs)
      else fieldsFrom (cur @ [c]) cs)"

text \<open>
  \<^verbatim>\<open>utf8.DecodeRuneInString\<close>: the first rune of a string and its width in bytes. A first
  byte below \<^verbatim>\<open>0x80\<close> is the rune itself. A first byte that cannot begin an encoding
  (\<^verbatim>\<open>0x80\<close> to \<^verbatim>\<open>0xC1\<close>, \<^verbatim>\<open>0xF5\<close> and above), a string shorter than the encoding, and a
  following byte outside its accepted range give \<^verbatim>\<open>RuneError\<close> with width 1. The second
  byte is accepted in \<^verbatim>\<open>0x80\<close> to \<^verbatim>\<open>0xBF\<close>, narrowed after \<^verbatim>\<open>0xE0\<close>, \<^verbatim>\<open>0xED\<close>, \<^verbatim>\<open>0xF0\<close> and
  \<^verbatim>\<open>0xF4\<close>; the third and fourth in \<^verbatim>\<open>0x80\<close> to \<^verbatim>\<open>0xBF\<close>. The bytes \<open>rest ! 0\<close>,
  \<open>rest ! 1\<close> and \<open>rest ! 2\<close> are read only after the test of the length.
\<close>

definition RuneError :: nat where
  "RuneError = 0xFFFD"

fun DecodeRuneInString :: "string \<Rightarrow> nat \<times> nat" where
  "DecodeRuneInString [] = (RuneError, 0)"
| "DecodeRuneInString (c0 # rest) =
     (let s0 = (of_char c0 :: nat) in
      if s0 < 0x80 then (s0, 1)
      else if s0 < 0xC2 \<or> 0xF4 < s0 then (RuneError, 1)
      else
        (let sz = (if s0 < 0xE0 then 2 else if s0 < 0xF0 then 3 else (4::nat));
             lo = (if s0 = 0xE0 then 0xA0 else if s0 = 0xF0 then 0x90 else (0x80::nat));
             hi = (if s0 = 0xED then 0x9F else if s0 = 0xF4 then 0x8F else (0xBF::nat))
         in if length (c0 # rest) < sz then (RuneError, 1)
            else
              (let s1 = (of_char (rest ! 0) :: nat) in
               if s1 < lo \<or> hi < s1 then (RuneError, 1)
               else if sz \<le> 2 then ((s0 mod 32) * 64 + s1 mod 64, 2)
               else
                 (let s2 = (of_char (rest ! 1) :: nat) in
                  if s2 < 0x80 \<or> 0xBF < s2 then (RuneError, 1)
                  else if sz \<le> 3
                  then ((s0 mod 16) * 4096 + (s1 mod 64) * 64 + s2 mod 64, 3)
                  else
                    (let s3 = (of_char (rest ! 2) :: nat) in
                     if s3 < 0x80 \<or> 0xBF < s3 then (RuneError, 1)
                     else ((s0 mod 8) * 262144 + (s1 mod 64) * 4096 + (s2 mod 64) * 64
                             + s3 mod 64, 4))))))"

text \<open>
  \<^verbatim>\<open>unicode.IsSpace\<close>: within Latin-1 the six ASCII characters, U+0085 and U+00A0; beyond
  it the table \<^verbatim>\<open>White_Space\<close>, that is U+1680, U+2000 to U+200A, U+2028, U+2029, U+202F,
  U+205F and U+3000.
\<close>

definition IsSpace :: "nat \<Rightarrow> bool" where
  "IsSpace r =
     (if r \<le> 0xFF
      then (r = 0x09 \<or> r = 0x0A \<or> r = 0x0B \<or> r = 0x0C \<or> r = 0x0D \<or> r = 0x20
            \<or> r = 0x85 \<or> r = 0xA0)
      else (r = 0x1680 \<or> (0x2000 \<le> r \<and> r \<le> 0x200A) \<or> r = 0x2028 \<or> r = 0x2029
            \<or> r = 0x202F \<or> r = 0x205F \<or> r = 0x3000))"

text \<open>
  \<^verbatim>\<open>strings.FieldsFunc(s, f)\<close>: the loop \<^verbatim>\<open>for end, rune := range s\<close>. \<open>start\<close> is the
  field being read, from its first byte up to the rune at hand, and \<open>None\<close> between fields
  (the source's \<^verbatim>\<open>start < 0\<close>). Each round consumes the bytes of one rune, at least one.
\<close>

function FieldsFuncFrom :: "(nat \<Rightarrow> bool) \<Rightarrow> string option \<Rightarrow> string \<Rightarrow> string list" where
  "FieldsFuncFrom f start [] = (case start of None \<Rightarrow> [] | Some cur \<Rightarrow> [cur])"
| "FieldsFuncFrom f start (c # cs) =
     (let r = fst (DecodeRuneInString (c # cs));
          w = snd (DecodeRuneInString (c # cs))
      in if f r then
           (case start of
              Some cur \<Rightarrow> cur # FieldsFuncFrom f None (drop (w - 1) cs)
            | None \<Rightarrow> FieldsFuncFrom f None (drop (w - 1) cs))
         else
           (case start of
              None \<Rightarrow> FieldsFuncFrom f (Some (take w (c # cs))) (drop (w - 1) cs)
            | Some cur \<Rightarrow> FieldsFuncFrom f (Some (cur @ take w (c # cs))) (drop (w - 1) cs)))"
  by pat_completeness auto
termination
  by (relation "measure (\<lambda>(f, start, s). length s)") auto

definition Fields :: "string \<Rightarrow> string list" where
  "Fields s =
     (if list_ex (\<lambda>c. (0x80::nat) \<le> of_char c) s then FieldsFuncFrom IsSpace None s
      else fieldsFrom [] s)"

subsection \<open>Data\<close>

datatype BinaryType = Player | Studio

text \<open>
  An error value. \<open>Errorf\<close> is \<^verbatim>\<open>fmt.Errorf\<close>: the format string with its formatted
  operands as pieces, and the error wrapped by \<^verbatim>\<open>%w\<close> when there is one. \<open>Foreign\<close> is
  an error returned by a collaborator, \<open>Panic\<close> a run-time panic.
\<close>

datatype piece = S string | T BinaryType | Seconds nat

datatype error = Foreign string | Errorf "piece list" "error option" | Panic string

text \<open>\<^verbatim>\<open>LogTimeout\<close> and \<^verbatim>\<open>DieTimeout\<close>, in seconds.\<close>

definition LogTimeout :: nat where "LogTimeout = 6"
definition DieTimeout :: nat where "DieTimeout = 3"

definition DialogNoAVX :: string where
  "DialogNoAVX = ''Warning: Your CPU does not support AVX. While some people may be able to run without it, most are not able to. VinegarHQ cannot provide support for your installation. Continue?''"

text \<open>The substring of a log line that \<^verbatim>\<open>Tail\<close> takes for the start of a shutdown.\<close>

definition shutdownMarker :: string where
  "shutdownMarker = ''[FLog::SingleSurfaceApp] shutDown:''"

text \<open>The fields of \<^verbatim>\<open>config.Binary\<close> and of \<^verbatim>\<open>Binary\<close> that the methods read or write.\<close>

record Config =
  Channel :: string
  DiscordRPC :: bool
  GameMode :: bool
  Launcher :: string

record Binary =
  Config :: Config
  MultipleInstances :: bool
  Alias :: string
  Name :: string
  Dir :: string
  Type :: BinaryType

text \<open>\<^verbatim>\<open>wine.Cmd\<close>: the executable path and the argument vector.\<close>

record Cmd =
  Path :: string
  Args :: "string list"

datatype signal = SIGINT | SIGTERM | SIGUSR1

text \<open>
  \<^verbatim>\<open>os.ProcessState\<close> of a process that has been waited for: it exited with a code or
  was terminated by a signal. \<^verbatim>\<open>ExitCode\<close> is -1 on a nil receiver and for a process
  that did not exit by itself.
\<close>

datatype ProcessState = Exited int | Signaled nat

fun ExitCode :: "ProcessState option \<Rightarrow> int" where
  "ExitCode None = - 1"
| "ExitCode (Some (Exited c)) = c"
| "ExitCode (Some (Signaled n)) = - 1"

text \<open>What \<^verbatim>\<open>cmd.Run()\<close> leaves behind: its error and \<^verbatim>\<open>cmd.ProcessState\<close>.\<close>

record RunResult =
  run_err :: "error option"
  run_state :: "ProcessState option"

text \<open>\<^verbatim>\<open>fsnotify.Event\<close> and what one round of the \<^verbatim>\<open>select\<close> in \<^verbatim>\<open>RobloxLogFile\<close>
  receives from the watcher.\<close>

datatype Op = Create | Write | Remove | Rename | Chmod

datatype received = Event "Op list" string | WatchError error

definition Has :: "Op list \<Rightarrow> Op \<Rightarrow> bool" where
  "Has ops op = (op \<in> set ops)"

text \<open>
  What the program does to the outside, in the order it does it: log records
  (\<^verbatim>\<open>slog\<close>), calls on the splash window, the wine prefix, the presence client, the
  file watcher and the session bus, and the goroutines it starts.
\<close>

datatype level = LInfo | LWarn | LError

datatype attr = AStr string | AErr error | ANum int | ACmd Cmd | ASig signal | ANil

datatype goroutine = MutexerWait | SignalSupervisor | PostLaunch | KillSelfAfter nat signal

datatype effect =
    Slog level string "(string \<times> attr) list"
  | SplashSetMessage string
  | SplashSetDesc string
  | SplashDialog string
  | SplashClose
  | PrefixInit
  | PrefixSetDPI nat
  | InstallWebView
  | ActivityConnect
  | ActivityClose
  | ActivityHandleRobloxLog string
  | CmdStart Cmd
  | CmdRun Cmd
  | SignalNotify "signal list"
  | Go goroutine
  | MkdirAll string
  | NewWatcher
  | WatcherAdd string
  | WatcherClose
  | RegisterGame int
  | TailFile string
  | Stderr string

text \<open>
  The collaborators, by what they return. None of them is in this file of the
  repository: the wine prefix (\<^verbatim>\<open>wine.Prefix\<close>), the configuration
  (\<^verbatim>\<open>config.Binary.LauncherPath\<close>), the presence client (\<^verbatim>\<open>bsrpc.Activity\<close>), the
  methods \<^verbatim>\<open>Setup\<close> and \<^verbatim>\<open>InstallWebView\<close> of \<^verbatim>\<open>Binary\<close>, the globals
  \<^verbatim>\<open>FirstRun\<close> and \<^verbatim>\<open>BinPrefix\<close>, and the operating system. \<open>watch_received\<close> is what
  the \<^verbatim>\<open>select\<close> of \<^verbatim>\<open>RobloxLogFile\<close> receives from the watcher, in order, before its
  timer fires; \<open>res_TailFile\<close> gives, for a file that can be opened, the lines that
  \<^verbatim>\<open>t.Lines\<close> delivers before it is closed; \<open>res_Pid\<close> is \<^verbatim>\<open>cmd.Process.Pid\<close> of the
  process once started.
\<close>

record World =
  stat_windows_ok :: bool
  cpu_AVX :: bool
  FirstRun :: bool
  PrefixDir :: string
  BinPrefix :: string
  filepath_Join :: "string list \<Rightarrow> string"
  Executable :: "BinaryType \<Rightarrow> string"
  Wine :: "string \<Rightarrow> string list \<Rightarrow> Cmd"
  res_PrefixInit :: "error option"
  res_PrefixSetDPI :: "nat \<Rightarrow> error option"
  res_InstallWebView :: "error option"
  res_Setup :: "Binary \<Rightarrow> error option \<times> Binary"
  res_Connect :: "error option"
  res_MutexerStart :: "error option"
  res_LauncherPath :: "Config \<Rightarrow> error + string"
  res_Run :: "Cmd \<Rightarrow> RunResult"
  res_Pid :: int
  res_AppDataDir :: "error + string"
  res_MkdirAll :: "string \<Rightarrow> error option"
  res_NewWatcher :: "error option"
  res_WatcherAdd :: "string \<Rightarrow> error option"
  watch_received :: "received list"
  res_ConnectSessionBus :: "error option"
  res_RegisterGame :: "error option"
  is_ErrMsgNoObject :: "error \<Rightarrow> bool"
  res_TailFile :: "string \<Rightarrow> error + string list"
  res_HandleRobloxLog :: "string \<Rightarrow> error option"

subsection \<open>Init\<close>

text \<open>
  The initialisation of the prefix by variant (the \<^verbatim>\<open>switch\<close> on \<^verbatim>\<open>b.Type\<close>): the call
  made and what it returned.
\<close>

definition initPrefix :: "Binary \<Rightarrow> World \<Rightarrow> error option \<times> effect list" where
  "initPrefix b w =
     (case Type b of
        Player \<Rightarrow> (res_PrefixInit w, [PrefixInit])
      | Studio \<Rightarrow> (res_PrefixSetDPI w 97, [PrefixSetDPI 97]))"

definition Init :: "Binary \<Rightarrow> World \<Rightarrow> error option \<times> effect list" where
  "Init b w =
     (let firstRun = (\<not> stat_windows_ok w);
          e1 = (if firstRun \<and> \<not> cpu_AVX w
                then [SplashDialog DialogNoAVX,
                      Slog LWarn ''Running roblox without AVX, Roblox will most likely fail to run!'' []]
                else [])
      in if firstRun \<or> FirstRun w then
           (let e2 = e1 @ [Slog LInfo ''Initializing wineprefix'' [(''dir'', AStr (PrefixDir w))],
                           SplashSetMessage ''Initializing wineprefix''] @ snd (initPrefix b w)
            in case fst (initPrefix b w) of
                 Some err \<Rightarrow>
                   (Some (Errorf [S ''failed to init '', T (Type b), S '' prefix''] (Some err)), e2)
               | None \<Rightarrow>
                   (case res_InstallWebView w of
                      Some err \<Rightarrow>
                        (Some (Errorf [S ''failed to install webview''] (Some err)),
                         e2 @ [InstallWebView])
                    | None \<Rightarrow> (None, e2 @ [InstallWebView])))
         else (None, e1))"



subsection \<open>HandleProtocolURI\<close>

text \<open>
  The body of the loop over the \<^verbatim>\<open>+\<close>-separated pieces: a piece that splits at \<^verbatim>\<open>:\<close>
  into exactly two parts, the first being \<^verbatim>\<open>channel\<close> and the second not empty, sets
  the channel and logs a warning; every other piece is passed over.
\<close>

definition handleURI :: "Binary \<times> effect list \<Rightarrow> string \<Rightarrow> Binary \<times> effect list" where
  "handleURI st uri =
     (case Split uri CHR '':'' of
        [k, c] \<Rightarrow>
          if k = ''channel'' then
            (if c = [] then st
             else (fst st\<lparr>Config := (Config (fst st))\<lparr>Channel := c\<rparr>\<rparr>,
                   snd st @ [Slog LWarn ''Roblox has requested a user channel, changing...''
                               [(''channel'', AStr c)]]))
          else st
      | _ \<Rightarrow> st)"

definition HandleProtocolURI :: "Binary \<Rightarrow> string \<Rightarrow> Binary \<times> effect list" where
  "HandleProtocolURI b mime = foldl handleURI (b, []) (Split mime CHR ''+'')"

text \<open>
  The spec's well-formed fragment, \<^verbatim>\<open>channel:<name>\<close> with a non-empty name: the name it
  carries, if it is one. A name has no \<^verbatim>\<open>:\<close> in it, since the fragment then has more than
  two parts.
\<close>

fun stripPrefix :: "string \<Rightarrow> string \<Rightarrow> string option" where
  "stripPrefix s [] = Some s"
| "stripPrefix [] (p # ps) = None"
| "stripPrefix (c # cs) (p # ps) = (if c = p then stripPrefix cs ps else None)"

definition channelName :: "string \<Rightarrow> string option" where
  "channelName f =
     (case stripPrefix f ''channel:'' of
        None \<Rightarrow> None
      | Some n \<Rightarrow> if n \<noteq> [] \<and> CHR '':'' \<notin> set n then Some n else None)"

text \<open>The name of the last well-formed fragment of a list, or the default when there is none.\<close>

definition lastChannel :: "string \<Rightarrow> string list \<Rightarrow> string" where
  "lastChannel dflt frags =
     (case List.map_filter channelName frags of [] \<Rightarrow> dflt | n # ns \<Rightarrow> last (n # ns))"

subsection \<open>Command\<close>

text \<open>
  The arguments as \<^verbatim>\<open>Command\<close> passes them on: those of a Studio protocol invocation
  become the flag and the first argument. \<^verbatim>\<open>args[0]\<close> of an empty list would panic.
\<close>

definition rewriteArgs :: "string list \<Rightarrow> error + string list" where
  "rewriteArgs args =
     (if HasPrefix (Join args '' '') ''roblox-studio:1''
      then (case args of
              [] \<Rightarrow> Inl (Panic ''index out of range'')
            | a # _ \<Rightarrow> Inr [''-protocolString'', a])
      else Inr args)"

definition Command :: "Binary \<Rightarrow> World \<Rightarrow> string list \<Rightarrow> error + Cmd" where
  "Command b w args =
     (case rewriteArgs args of
        Inl e \<Rightarrow> Inl e
      | Inr args1 \<Rightarrow>
          (let cmd = Wine w (filepath_Join w [Dir b, Executable w (Type b)]) args1;
               launcher = Fields (Launcher (Config b))
           in if length launcher \<ge> 1 then
                (case res_LauncherPath w (Config b) of
                   Inl err \<Rightarrow> Inl (Errorf [S ''bad launcher''] (Some err))
                 | Inr p \<Rightarrow> Inr (cmd\<lparr>Args := launcher @ Args cmd, Path := p\<rparr>))
              else Inr cmd))"

subsection \<open>RobloxLogFile\<close>

text \<open>
  The \<^verbatim>\<open>for\<close>/\<^verbatim>\<open>select\<close> loop, over what the watcher sends before the timer fires. The
  timer fires \<^verbatim>\<open>LogTimeout\<close> after it is set, so the list is finite and the loop ends:
  with the name of the first event that has \<^verbatim>\<open>Create\<close>, or with the timer.
\<close>

definition LogNotFound :: error where
  "LogNotFound = Errorf [S ''roblox log file not found after '', Seconds LogTimeout] None"

fun watchLoop :: "received list \<Rightarrow> (error + string) \<times> effect list" where
  "watchLoop [] = (Inl LogNotFound, [])"
| "watchLoop (Event ops name # rest) =
     (if Has ops Create then (Inr name, []) else watchLoop rest)"
| "watchLoop (WatchError err # rest) =
     (fst (watchLoop rest),
      Slog LError ''Recieved fsnotify watcher error'' [(''error'', AErr err)] # snd (watchLoop rest))"

definition RobloxLogFile :: "World \<Rightarrow> (error + string) \<times> effect list" where
  "RobloxLogFile w =
     (case res_AppDataDir w of
        Inl err \<Rightarrow> (Inl (Errorf [S ''get appdata''] (Some err)), [])
      | Inr ad \<Rightarrow>
          (let dir = filepath_Join w [ad, ''Local'', ''Roblox'', ''logs'']
           in case res_MkdirAll w dir of
                Some err \<Rightarrow> (Inl (Errorf [S ''create roblox log dir''] (Some err)), [MkdirAll dir])
              | None \<Rightarrow>
                  (case res_NewWatcher w of
                     Some err \<Rightarrow>
                       (Inl (Errorf [S ''make fsnotify watcher''] (Some err)), [MkdirAll dir])
                   | None \<Rightarrow>
                       (case res_WatcherAdd w dir of
                          Some err \<Rightarrow>
                            (Inl (Errorf [S ''watch roblox log dir''] (Some err)),
                             [MkdirAll dir, NewWatcher, WatcherAdd dir, WatcherClose])
                        | None \<Rightarrow>
                            (fst (watchLoop (watch_received w)),
                             [MkdirAll dir, NewWatcher, WatcherAdd dir]
                               @ snd (watchLoop (watch_received w)) @ [WatcherClose])))))"

text \<open>Whether nothing in a list of receptions is the creation of a file, and the log
  records of the watcher errors in it.\<close>

fun noCreate :: "received list \<Rightarrow> bool" where
  "noCreate [] = True"
| "noCreate (Event ops name # rest) = (\<not> Has ops Create \<and> noCreate rest)"
| "noCreate (WatchError err # rest) = noCreate rest"

fun watchErrorLogs :: "received list \<Rightarrow> effect list" where
  "watchErrorLogs [] = []"
| "watchErrorLogs (Event ops name # rest) = watchErrorLogs rest"
| "watchErrorLogs (WatchError err # rest) =
     Slog LError ''Recieved fsnotify watcher error'' [(''error'', AErr err)] # watchErrorLogs rest"

text \<open>The watchers that a run of effects leaves open: one more for each watcher made, one
  less for each closed.\<close>

fun openWatchers :: "effect list \<Rightarrow> int" where
  "openWatchers [] = 0"
| "openWatchers (NewWatcher # es) = openWatchers es + 1"
| "openWatchers (WatcherClose # es) = openWatchers es - 1"
| "openWatchers (e # es) = openWatchers es"

subsection \<open>Tail\<close>

text \<open>The body of the loop over \<^verbatim>\<open>t.Lines\<close>, for one line.\<close>

definition tailLine :: "Binary \<Rightarrow> World \<Rightarrow> string \<Rightarrow> effect list" where
  "tailLine b w text =
     [Stderr text]
     @ (if Contains text shutdownMarker then [Go (KillSelfAfter DieTimeout SIGUSR1)] else [])
     @ (if DiscordRPC (Config b) then
          ActivityHandleRobloxLog text #
          (case res_HandleRobloxLog w text of
             Some err \<Rightarrow> [Slog LError ''Activity Roblox log handle failed'' [(''error'', AErr err)]]
           | None \<Rightarrow> [])
        else [])"

fun tailLines :: "Binary \<Rightarrow> World \<Rightarrow> string list \<Rightarrow> effect list" where
  "tailLines b w [] = []"
| "tailLines b w (text # rest) = tailLine b w text @ tailLines b w rest"

definition Tail :: "Binary \<Rightarrow> World \<Rightarrow> string \<Rightarrow> effect list" where
  "Tail b w name =
     (case res_TailFile w name of
        Inl err \<Rightarrow>
          [TailFile name, Slog LError ''Could not tail Roblox log file'' [(''error'', AErr err)]]
      | Inr lines \<Rightarrow> TailFile name # tailLines b w lines)"

text \<open>The delayed kill signals that a run of effects has armed.\<close>

definition armedTimers :: "effect list \<Rightarrow> effect list" where
  "armedTimers es = filter (\<lambda>e. e = Go (KillSelfAfter DieTimeout SIGUSR1)) es"

subsection \<open>RegisterGameMode\<close>

definition RegisterGameMode :: "World \<Rightarrow> int \<Rightarrow> effect list" where
  "RegisterGameMode w pid =
     (case res_ConnectSessionBus w of
        Some err \<Rightarrow> [Slog LError ''Failed to connect to D-Bus'' [(''error'', AErr err)]]
      | None \<Rightarrow>
          RegisterGame pid #
          (case res_RegisterGame w of
             None \<Rightarrow> []
           | Some cerr \<Rightarrow>
               if \<not> is_ErrMsgNoObject w cerr
               then [Slog LError ''Failed to register to GameMode'' [(''error'', ANil)]]
               else []))"

subsection \<open>Execute\<close>

text \<open>
  The goroutine that \<^verbatim>\<open>Execute\<close> starts for the work after the launch, from the moment
  \<^verbatim>\<open>cmd.Process\<close> is set: it looks for the log file and, only when that is found, closes
  the splash window, registers with GameMode if configured, and tails the file.
\<close>

definition postLaunch :: "Binary \<Rightarrow> World \<Rightarrow> effect list" where
  "postLaunch b w =
     (case fst (RobloxLogFile w) of
        Inl err \<Rightarrow>
          snd (RobloxLogFile w)
          @ [Slog LError ''Failed to find Roblox log file'' [(''error'', AErr err)]]
      | Inr lf \<Rightarrow>
          snd (RobloxLogFile w) @ [SplashClose]
          @ (if GameMode (Config b) then RegisterGameMode w (res_Pid w) else [])
          @ Tail b w lf)"

text \<open>The effects of the work after the launch that depend on the log file: closing the
  splash window, the registration with GameMode, tailing and what tailing does.\<close>

fun isPostLaunchWork :: "effect \<Rightarrow> bool" where
  "isPostLaunchWork SplashClose = True"
| "isPostLaunchWork (RegisterGame pid) = True"
| "isPostLaunchWork (TailFile name) = True"
| "isPostLaunchWork (Stderr text) = True"
| "isPostLaunchWork (Go g) = True"
| "isPostLaunchWork (ActivityHandleRobloxLog text) = True"
| "isPostLaunchWork e = False"

text \<open>The connection to the presence client: the receiver afterwards, the effects, and
  whether \<^verbatim>\<open>b.Activity.Close\<close> has been deferred.\<close>

definition connectActivity :: "Binary \<Rightarrow> World \<Rightarrow> Binary \<times> effect list \<times> bool" where
  "connectActivity b w =
     (if DiscordRPC (Config b) then
        (case res_Connect w of
           Some err \<Rightarrow>
             (b\<lparr>Config := (Config b)\<lparr>DiscordRPC := False\<rparr>\<rparr>,
              [ActivityConnect,
               Slog LError ''Could not connect to Discord RPC'' [(''error'', AErr err)]],
              False)
         | None \<Rightarrow> (b, [ActivityConnect], True))
      else (b, [], False))"

text \<open>The start of \<^verbatim>\<open>robloxmutexer.exe\<close>, for the Player when several instances are
  allowed.\<close>

definition startMutexer :: "Binary \<Rightarrow> World \<Rightarrow> error option \<times> effect list" where
  "startMutexer b w =
     (if MultipleInstances b \<and> Type b = Player then
        (let mutexer = Wine w (filepath_Join w [BinPrefix w, ''robloxmutexer.exe'']) []
         in case res_MutexerStart w of
              Some err \<Rightarrow>
                (Some (Errorf [S ''start robloxmutexer''] (Some err)),
                 [Slog LInfo ''Running robloxmutexer'' [], CmdStart mutexer])
            | None \<Rightarrow>
                (None, [Slog LInfo ''Running robloxmutexer'' [], CmdStart mutexer, Go MutexerWait]))
      else (None, []))"

text \<open>What \<^verbatim>\<open>Execute\<close> returns once \<^verbatim>\<open>cmd.Run()\<close> has returned.\<close>

definition classify :: "RunResult \<Rightarrow> error option \<times> effect list" where
  "classify r =
     (case run_err r of
        Some err \<Rightarrow>
          if ExitCode (run_state r) = - 1 then (None, [Slog LWarn ''Roblox was killed!'' []])
          else (Some (Errorf [S ''roblox process''] (Some err)), [])
      | None \<Rightarrow> (None, []))"

definition Execute :: "Binary \<Rightarrow> World \<Rightarrow> string list \<Rightarrow> error option \<times> Binary \<times> effect list" where
  "Execute b w args =
     (let b1 = fst (connectActivity b w);
          e1 = fst (snd (connectActivity b w));
          closing = (if snd (snd (connectActivity b w)) then [ActivityClose] else [])
      in case fst (startMutexer b1 w) of
           Some err \<Rightarrow> (Some err, b1, e1 @ snd (startMutexer b1 w) @ closing)
         | None \<Rightarrow>
             (case Command b1 w args of
                Inl err \<Rightarrow>
                  (Some (Errorf [T (Type b1), S '' command''] (Some err)), b1,
                   e1 @ snd (startMutexer b1 w) @ closing)
              | Inr cmd \<Rightarrow>
                  (fst (classify (res_Run w cmd)), b1,
                   e1 @ snd (startMutexer b1 w)
                   @ [SignalNotify [SIGINT, SIGTERM, SIGUSR1], Go SignalSupervisor,
                      Slog LInfo ''Running Binary'' [(''name'', AStr (Name b1)), (''cmd'', ACmd cmd)],
                      SplashSetMessage (''Launching '' @ Alias b1),
                      Go PostLaunch, CmdRun cmd]
                   @ snd (classify (res_Run w cmd)) @ closing)))"

subsection \<open>Run\<close>

definition Run :: "Binary \<Rightarrow> World \<Rightarrow> string list \<Rightarrow> error option \<times> Binary \<times> effect list" where
  "Run b w args =
     (case fst (Init b w) of
        Some err \<Rightarrow> (Some (Errorf [S ''init '', T (Type b)] (Some err)), b, snd (Init b w))
      | None \<Rightarrow>
          (let st = (case args of
                       [a] \<Rightarrow> if a = ''roblox-'' then HandleProtocolURI b a else (b, [])
                     | _ \<Rightarrow> (b, []));
               b1 = fst st;
               e1 = snd (Init b w) @ snd st @ [SplashSetDesc (Channel (Config b1))];
               b2 = snd (res_Setup w b1)
           in case fst (res_Setup w b1) of
                Some err \<Rightarrow> (Some (Errorf [S ''failed to setup roblox''] (Some err)), b2, e1)
              | None \<Rightarrow>
                  (case fst (Execute b2 w args) of
                     Some err \<Rightarrow>
                       (Some (Errorf [S ''failed to run roblox''] (Some err)),
                        fst (snd (Execute b2 w args)), e1 @ snd (snd (Execute b2 w args)))
                   | None \<Rightarrow>
                       (None, fst (snd (Execute b2 w args)),
                        e1 @ snd (snd (Execute b2 w args))))))"

subsection \<open>The signal supervisor\<close>

text \<open>
  The goroutine of \<^verbatim>\<open>Execute\<close> that holds the signals, as a machine that takes one step
  at a time between the events around it. Its places are: waiting at \<^verbatim>\<open>s := <-c\<close>; the
  signal received and logged, before the test of \<^verbatim>\<open>cmd.ProcessState\<close>; inside
  \<^verbatim>\<open>cmd.Process.Kill()\<close>, which has been called and has not returned; before
  \<^verbatim>\<open>signal.Stop(c)\<close>; returned; and stopped by the nil dereference of
  \<^verbatim>\<open>cmd.Process.Pid\<close> when the process never started.
\<close>

datatype place = Waiting | Received | Killing | BeforeStop | Returned | Panicked

text \<open>
  The state around the goroutine: whether \<^verbatim>\<open>c\<close> is subscribed, the buffer of \<^verbatim>\<open>c\<close>
  (capacity 1), \<^verbatim>\<open>cmd.Process\<close> and \<^verbatim>\<open>cmd.ProcessState\<close>, the signals logged as
  received, the processes killed, and the signals that were left to the default
  disposition of the operating system.
\<close>

record Supervisor =
  place :: place
  subscribed :: bool
  chan :: "signal list"
  Process :: "int option"
  PState :: "ProcessState option"
  logged :: "signal list"
  killed :: "int list"
  defaulted :: "signal list"

text \<open>
  The events: a signal arrives at the program; \<^verbatim>\<open>cmd.Start\<close> sets \<^verbatim>\<open>cmd.Process\<close>;
  \<^verbatim>\<open>cmd.Wait\<close> sets \<^verbatim>\<open>cmd.ProcessState\<close>; the goroutine takes its next step.
\<close>

datatype event = Deliver signal | Started int | Waited ProcessState | Step

text \<open>
  A signal that arrives while \<^verbatim>\<open>c\<close> is subscribed is sent to \<^verbatim>\<open>c\<close> without blocking: it
  goes into the buffer if there is room and is dropped otherwise, and in both cases the
  program keeps running. One that arrives after \<^verbatim>\<open>signal.Stop(c)\<close> is left to the
  default disposition.
\<close>

definition deliver :: "Supervisor \<Rightarrow> signal \<Rightarrow> Supervisor" where
  "deliver s sig =
     (if subscribed s then
        (if length (chan s) < 1 then s\<lparr>chan := chan s @ [sig]\<rparr> else s)
      else s\<lparr>defaulted := defaulted s @ [sig]\<rparr>)"

definition supervise :: "Supervisor \<Rightarrow> Supervisor" where
  "supervise s =
     (case place s of
        Waiting \<Rightarrow>
          (case chan s of
             [] \<Rightarrow> s
           | sig # rest \<Rightarrow> s\<lparr>chan := rest, logged := logged s @ [sig], place := Received\<rparr>)
      | Received \<Rightarrow>
          (if PState s = None then
             (case Process s of
                None \<Rightarrow> s\<lparr>place := Panicked\<rparr>
              | Some pid \<Rightarrow> s\<lparr>killed := killed s @ [pid], place := Killing\<rparr>)
           else s\<lparr>place := BeforeStop\<rparr>)
      | Killing \<Rightarrow> s\<lparr>place := BeforeStop\<rparr>
      | BeforeStop \<Rightarrow> s\<lparr>subscribed := False, place := Returned\<rparr>
      | Returned \<Rightarrow> s
      | Panicked \<Rightarrow> s)"

fun step :: "Supervisor \<Rightarrow> event \<Rightarrow> Supervisor" where
  "step s (Deliver sig) = deliver s sig"
| "step s (Started pid) = s\<lparr>Process := Some pid\<rparr>"
| "step s (Waited ps) = s\<lparr>PState := Some ps\<rparr>"
| "step s Step = supervise s"

text \<open>The state when the goroutine is started, after \<^verbatim>\<open>signal.Notify\<close> and before
  \<^verbatim>\<open>cmd.Run\<close>, and the state after a sequence of events from there.\<close>

definition supervisor0 :: Supervisor where
  "supervisor0 = \<lparr>place = Waiting, subscribed = True, chan = [], Process = None,
                  PState = None, logged = [], killed = [], defaulted = []\<rparr>"

definition after :: "event list \<Rightarrow> Supervisor" where
  "after evs = foldl step supervisor0 evs"


subsection \<open>Example inputs\<close>

text \<open>A Player with a launcher configured, and a world in which every collaborator
  succeeds on a first run, the log file is created after a watcher error and another
  event, and the process ends killed.\<close>

definition binary0 :: Binary where
  "binary0 = \<lparr>Config = \<lparr>Channel = ''LIVE'', DiscordRPC = True, GameMode = True,
                          Launcher = ''gamemoderun -x''\<rparr>,
              MultipleInstances = False, Alias = ''Player'', Name = ''RobloxPlayerBeta.exe'',
              Dir = ''/v1'', Type = Player\<rparr>"

definition world0 :: World where
  "world0 = \<lparr>stat_windows_ok = False, cpu_AVX = True, FirstRun = False,
             PrefixDir = ''/pfx'', BinPrefix = ''/bin'',
             filepath_Join = (\<lambda>xs. Join xs ''/''),
             Executable = (\<lambda>t. case t of Player \<Rightarrow> ''RobloxPlayerBeta.exe''
                                         | Studio \<Rightarrow> ''RobloxStudioBeta.exe''),
             Wine = (\<lambda>exe args. \<lparr>Path = ''wine'', Args = ''wine'' # exe # args\<rparr>),
             res_PrefixInit = None, res_PrefixSetDPI = (\<lambda>n. None), res_InstallWebView = None,
             res_Setup = (\<lambda>b. (None, b)), res_Connect = None, res_MutexerStart = None,
             res_LauncherPath = (\<lambda>c. Inr ''/usr/bin/gamemoderun''),
             res_Run = (\<lambda>c. \<lparr>run_err = Some (Foreign ''signal: killed''),
                               run_state = Some (Signaled 9)\<rparr>),
             res_Pid = 4242, res_AppDataDir = Inr ''/ad'',
             res_MkdirAll = (\<lambda>d. None), res_NewWatcher = None, res_WatcherAdd = (\<lambda>d. None),
             watch_received = [WatchError (Foreign ''overflow''), Event [Write] ''/ad/x'',
                               Event [Create] ''/ad/0.log'', Event [Create] ''/ad/1.log''],
             res_ConnectSessionBus = None, res_RegisterGame = None,
             is_ErrMsgNoObject = (\<lambda>e. False),
             res_TailFile = (\<lambda>n. Inr [''start'', shutdownMarker, ''x'' @ shutdownMarker @ ''y'',
                                          shutdownMarker]),
             res_HandleRobloxLog = (\<lambda>t. None)\<rparr>"



definition world_bad_launcher :: World where
  "world_bad_launcher = world0\<lparr>res_LauncherPath := (\<lambda>c. Inl (Foreign ''not found''))\<rparr>"

definition world_no_log :: World where
  "world_no_log = world0\<lparr>watch_received := [Event [Write] ''/ad/x'',
                                             WatchError (Foreign ''overflow'')]\<rparr>"

definition world_tail_fails :: World where
  "world_tail_fails = world0\<lparr>res_TailFile := (\<lambda>n. Inl (Foreign ''permission denied''))\<rparr>"

definition world_three_markers :: World where
  "world_three_markers =
     world0\<lparr>res_TailFile := (\<lambda>n. Inr [shutdownMarker, shutdownMarker, shutdownMarker])\<rparr>"

definition world_exit_1 :: World where
  "world_exit_1 = world0\<lparr>res_Run := (\<lambda>c. \<lparr>run_err = Some (Foreign ''exit status 1''),
                                             run_state = Some (Exited 1)\<rparr>)\<rparr>"


section \<open>Properties\<close>

subsection \<open>Splitting and joining\<close>

lemma splitFrom_no_sep: "sep \<notin> set f \<Longrightarrow> splitFrom sep cur f = [cur @ f]"
  by (induction f arbitrary: cur) auto

lemma splitFrom_append:
  "sep \<notin> set f \<Longrightarrow> splitFrom sep cur (f @ sep # rest) = (cur @ f) # splitFrom sep [] rest"
  by (induction f arbitrary: cur) auto

lemma splitFrom_parts: "p \<in> set (splitFrom sep cur s) \<Longrightarrow> sep \<notin> set cur \<Longrightarrow> sep \<notin> set p"
proof (induction s arbitrary: cur)
  case Nil
  then show ?case by simp
next
  case (Cons c cs)
  show ?case
  proof (cases "c = sep")
    case True
    then have "p = cur \<or> p \<in> set (splitFrom sep [] cs)" using Cons.prems(1) by simp
    then show ?thesis using Cons.IH [of "[]"] Cons.prems(2) by auto
  next
    case False
    then have "p \<in> set (splitFrom sep (cur @ [c]) cs)" using Cons.prems(1) by simp
    then show ?thesis using Cons.IH [of "cur @ [c]"] Cons.prems(2) False by auto
  qed
qed

lemma splitFrom_ne: "splitFrom sep cur s \<noteq> []"
  by (induction s arbitrary: cur) auto

lemma Join_Cons: "ys \<noteq> [] \<Longrightarrow> Join (x # ys) sep = x @ sep @ Join ys sep"
  by (cases ys) auto

lemma Join_splitFrom: "Join (splitFrom sep cur s) [sep] = cur @ s"
  by (induction s arbitrary: cur) (auto simp: Join_Cons splitFrom_ne)

lemma Split_Join:
  "frags \<noteq> [] \<Longrightarrow> \<forall>f\<in>set frags. sep \<notin> set f \<Longrightarrow> Split (Join frags [sep]) sep = frags"
proof (induction frags)
  case Nil
  then show ?case by simp
next
  case (Cons x ys)
  show ?case
  proof (cases ys)
    case Nil
    then show ?thesis using Cons.prems by (simp add: Split_def splitFrom_no_sep)
  next
    case (Cons y zs)
    then have ih: "splitFrom sep [] (Join ys [sep]) = ys"
      using Cons.IH Cons.prems by (simp add: Split_def)
    have "sep \<notin> set x" using Cons.prems by simp
    then have "splitFrom sep [] (x @ sep # Join ys [sep]) = ([] @ x) # splitFrom sep [] (Join ys [sep])"
      by (rule splitFrom_append)
    then show ?thesis using ih Cons by (simp add: Split_def)
  qed
qed

lemma Split_two:
  assumes "Split f sep = [k, c]"
  shows "f = k @ sep # c \<and> sep \<notin> set c"
proof -
  have "Join (Split f sep) [sep] = f" by (simp add: Split_def Join_splitFrom)
  then have "f = k @ sep # c" using assms by simp
  moreover have "c \<in> set (splitFrom sep [] f)" using assms by (simp add: Split_def)
  then have "sep \<notin> set c" using splitFrom_parts [of c sep "[]" f] by simp
  ultimately show ?thesis by simp
qed

lemma stripPrefix_Some: "stripPrefix s p = Some r \<longleftrightarrow> s = p @ r"
  by (induction s p rule: stripPrefix.induct) auto

lemma channelName_Some:
  "channelName f = Some c \<longleftrightarrow> (Split f CHR '':'' = [''channel'', c] \<and> c \<noteq> [])"
proof
  assume "channelName f = Some c"
  then have f: "f = ''channel:'' @ c" and c: "c \<noteq> []" "CHR '':'' \<notin> set c"
    by (auto simp: channelName_def stripPrefix_Some split: option.splits if_splits)
  have "splitFrom CHR '':'' [] (''channel'' @ CHR '':'' # c) = ([] @ ''channel'') # splitFrom CHR '':'' [] c"
    by (rule splitFrom_append) simp
  then show "Split f CHR '':'' = [''channel'', c] \<and> c \<noteq> []"
    using f c by (simp add: Split_def splitFrom_no_sep)
next
  assume a: "Split f CHR '':'' = [''channel'', c] \<and> c \<noteq> []"
  then have "f = ''channel'' @ CHR '':'' # c \<and> CHR '':'' \<notin> set c"
    using Split_two by blast
  then have "stripPrefix f ''channel:'' = Some c \<and> CHR '':'' \<notin> set c"
    by (simp add: stripPrefix_Some)
  then show "channelName f = Some c"
    using a by (simp add: channelName_def)
qed

lemma handleURI_skip:
  "\<not> (\<exists>c. Split uri CHR '':'' = [''channel'', c] \<and> c \<noteq> []) \<Longrightarrow> handleURI st uri = st"
proof -
  assume n: "\<not> (\<exists>c. Split uri CHR '':'' = [''channel'', c] \<and> c \<noteq> [])"
  show ?thesis
  proof (cases "Split uri CHR '':''")
    case Nil
    then show ?thesis by (simp add: handleURI_def)
  next
    case (Cons k r)
    note kr = Cons
    show ?thesis
    proof (cases r)
      case Nil
      then show ?thesis using kr by (simp add: handleURI_def)
    next
      case (Cons c r')
      note cr = Cons
      show ?thesis
      proof (cases r')
        case Nil
        then have "k \<noteq> ''channel'' \<or> c = []" using n kr cr by auto
        then show ?thesis using kr cr Nil by (auto simp add: handleURI_def)
      next
        case (Cons a list)
        then show ?thesis using kr cr by (simp add: handleURI_def)
      qed
    qed
  qed
qed

lemma handleURI_set:
  "Split uri CHR '':'' = [''channel'', c] \<Longrightarrow> c \<noteq> [] \<Longrightarrow>
   handleURI st uri =
     (fst st\<lparr>Config := (Config (fst st))\<lparr>Channel := c\<rparr>\<rparr>,
      snd st @ [Slog LWarn ''Roblox has requested a user channel, changing...''
                  [(''channel'', AStr c)]])"
  by (simp add: handleURI_def)

lemma handleURI_channel:
  "Channel (Config (fst (handleURI st uri))) =
     (case channelName uri of None \<Rightarrow> Channel (Config (fst st)) | Some c \<Rightarrow> c)"
proof (cases "channelName uri")
  case None
  then have "\<not> (\<exists>c. Split uri CHR '':'' = [''channel'', c] \<and> c \<noteq> [])"
    using channelName_Some [of uri] by auto
  then show ?thesis
    using None by (simp add: handleURI_skip)
next
  case (Some c)
  then have "Split uri CHR '':'' = [''channel'', c] \<and> c \<noteq> []"
    using channelName_Some by blast
  then show ?thesis using Some by (simp add: handleURI_set)
qed

lemma map_filter_Cons:
  "List.map_filter f (x # xs) = (case f x of None \<Rightarrow> List.map_filter f xs | Some y \<Rightarrow> y # List.map_filter f xs)"
  by (cases "f x") simp_all

lemma lastChannel_Nil: "lastChannel d [] = d"
  by (simp add: lastChannel_def)

lemma lastChannel_Cons:
  "lastChannel d (f # fs) = lastChannel (case channelName f of None \<Rightarrow> d | Some c \<Rightarrow> c) fs"
  by (cases "channelName f"; cases "List.map_filter channelName fs")
     (simp_all add: lastChannel_def map_filter_Cons)

lemma foldl_handleURI_channel:
  "Channel (Config (fst (foldl handleURI st frags))) =
     lastChannel (Channel (Config (fst st))) frags"
proof (induction frags arbitrary: st)
  case Nil
  then show ?case by (simp add: lastChannel_Nil)
next
  case (Cons f fs)
  have "Channel (Config (fst (foldl handleURI (handleURI st f) fs))) =
        lastChannel (Channel (Config (fst (handleURI st f)))) fs"
    by (rule Cons.IH)
  then show ?case by (simp add: lastChannel_Cons handleURI_channel)
qed

subsection \<open>The protocol-URI handler\<close>

lemma channelName_iff:
  "channelName f = Some n \<longleftrightarrow> f = ''channel:'' @ n \<and> n \<noteq> [] \<and> CHR '':'' \<notin> set n"
  by (auto simp: channelName_def stripPrefix_Some split: option.splits)

lemma lastChannel_none:
  "\<forall>f\<in>set frags. channelName f = None \<Longrightarrow> lastChannel d frags = d"
  by (induction frags arbitrary: d) (simp_all add: lastChannel_Nil lastChannel_Cons)

lemma lastChannel_last:
  "channelName f = Some n \<Longrightarrow> \<forall>g\<in>set post. channelName g = None \<Longrightarrow>
   lastChannel d (pre @ f # post) = n"
  by (induction pre arbitrary: d) (simp_all add: lastChannel_Cons lastChannel_none)

text \<open>
  C4. For a string of \<^verbatim>\<open>+\<close>-separated fragments, the protocol-URI handler leaves the
  configured channel as it is when no fragment is a well-formed \<^verbatim>\<open>channel:<name>\<close> with
  a non-empty name (the key is missing, the value is empty, or the number of
  \<^verbatim>\<open>:\<close>-separated parts is not two); otherwise the channel becomes the name of the last
  well-formed fragment.
\<close>

theorem HandleProtocolURI_channel:
  assumes "frags \<noteq> []" and "\<forall>f\<in>set frags. CHR ''+'' \<notin> set f"
  shows "((\<forall>f\<in>set frags. channelName f = None) \<longrightarrow>
            Channel (Config (fst (HandleProtocolURI b (Join frags ''+'')))) = Channel (Config b))
       \<and> (\<forall>pre f post n.
            frags = pre @ f # post \<and> channelName f = Some n
              \<and> (\<forall>g\<in>set post. channelName g = None) \<longrightarrow>
            Channel (Config (fst (HandleProtocolURI b (Join frags ''+'')))) = n)"
proof -
  have "Split (Join frags [CHR ''+'']) CHR ''+'' = frags"
    using assms by (rule Split_Join)
  then have "Channel (Config (fst (HandleProtocolURI b (Join frags ''+'')))) =
             lastChannel (Channel (Config b)) frags"
    by (simp add: HandleProtocolURI_def foldl_handleURI_channel)
  then show ?thesis
    by (auto simp: lastChannel_none lastChannel_last)
qed

theorem HandleProtocolURI_channel_witness:
  "Channel (Config (fst (HandleProtocolURI binary0 ''channel:a+x+channel:b+channel:''))) = ''b''
   \<and> Channel (Config (fst (HandleProtocolURI binary0 ''channel+channel:+channel:a:b''))) = ''LIVE''"
proof -
  have n: "channelName ''channel:b'' = Some ''b''" "channelName ''channel:'' = None"
    "channelName ''channel'' = None" "channelName ''channel:a:b'' = None"
    by (simp_all add: channelName_def)
  have p1: "\<forall>f\<in>set [''channel:a'', ''x'', ''channel:b'', ''channel:'']. CHR ''+'' \<notin> set f"
    by auto
  have p2: "\<forall>f\<in>set [''channel'', ''channel:'', ''channel:a:b'']. CHR ''+'' \<notin> set f"
    by auto
  have "Channel (Config (fst (HandleProtocolURI binary0
               (Join [''channel:a'', ''x'', ''channel:b'', ''channel:''] ''+'')))) = ''b''"
    by (rule HandleProtocolURI_channel [of "[''channel:a'', ''x'', ''channel:b'', ''channel:'']" binary0,
          THEN conjunct2, rule_format, of "[''channel:a'', ''x'']" "''channel:b''" "[''channel:'']" "''b''"])
       (simp_all add: n p1)
  moreover have "Channel (Config (fst (HandleProtocolURI binary0
               (Join [''channel'', ''channel:'', ''channel:a:b''] ''+'')))) = Channel (Config binary0)"
    by (rule HandleProtocolURI_channel [of "[''channel'', ''channel:'', ''channel:a:b'']" binary0,
          THEN conjunct1, rule_format])
       (auto simp: n p2)
  ultimately show ?thesis by (simp add: binary0_def)
qed

subsection \<open>Tail\<close>

lemma armedTimers_append: "armedTimers (xs @ ys) = armedTimers xs @ armedTimers ys"
  by (simp add: armedTimers_def)

lemma armedTimers_tailLine:
  "length (armedTimers (tailLine b w text)) = (if Contains text shutdownMarker then 1 else 0)"
  by (simp add: armedTimers_def tailLine_def split: option.splits)

lemma armedTimers_tailLines:
  "length (armedTimers (tailLines b w lines)) =
     length (filter (\<lambda>text. Contains text shutdownMarker) lines)"
  by (induction lines) (simp_all add: armedTimers_append armedTimers_tailLine, simp add: armedTimers_def)

text \<open>
  C1, as the code has it. A run of the Tail Supervisor arms one delayed kill signal for
  each tailed line that contains the shutdown marker: the number of timers armed is the
  number of such lines, and none when the file cannot be opened. Nothing caps the timers at
  one, and no detection is ignored while a timer is pending.
\<close>

theorem Tail_arms_one_timer_per_marker_line:
  "length (armedTimers (Tail b w name)) =
     (case res_TailFile w name of
        Inl err \<Rightarrow> 0
      | Inr lines \<Rightarrow> length (filter (\<lambda>text. Contains text shutdownMarker) lines))"
proof (cases "res_TailFile w name")
  case (Inl err)
  then show ?thesis by (simp add: Tail_def armedTimers_def)
next
  case (Inr lines)
  have "armedTimers (Tail b w name) = armedTimers (tailLines b w lines)"
    using Inr by (simp add: Tail_def armedTimers_def)
  then show ?thesis using Inr by (simp add: armedTimers_tailLines)
qed

lemma Contains_marker: "Contains shutdownMarker shutdownMarker"
  by (simp add: shutdownMarker_def)

text \<open>
  C1 as stated fails: a log of three lines that each carry the marker arms three delayed
  kill signals, not one.
\<close>

theorem Tail_three_markers_three_timers:
  "res_TailFile world_three_markers ''/ad/0.log'' = Inr [shutdownMarker, shutdownMarker, shutdownMarker]
   \<and> length (armedTimers (Tail binary0 world_three_markers ''/ad/0.log'')) = 3
   \<and> \<not> length (armedTimers (Tail binary0 world_three_markers ''/ad/0.log'')) \<le> 1"
  by (simp add: world_three_markers_def world0_def Tail_def tailLine_def armedTimers_def Contains_marker)

text \<open>
  C10. If opening the log file for tailing fails, the Tail Supervisor returns right after
  logging the error: no line is relayed to the output sink, no delayed kill signal is
  armed, and no line is forwarded to the presence client.
\<close>

theorem Tail_open_failure:
  assumes "res_TailFile w name = Inl err"
  shows "Tail b w name =
           [TailFile name, Slog LError ''Could not tail Roblox log file'' [(''error'', AErr err)]]
       \<and> (\<forall>text. Stderr text \<notin> set (Tail b w name))
       \<and> armedTimers (Tail b w name) = []
       \<and> (\<forall>g. Go g \<notin> set (Tail b w name))
       \<and> (\<forall>text. ActivityHandleRobloxLog text \<notin> set (Tail b w name))"
  using assms by (simp add: Tail_def armedTimers_def)

theorem Tail_open_failure_witness:
  "res_TailFile world_tail_fails ''/ad/0.log'' = Inl (Foreign ''permission denied'')
   \<and> Tail binary0 world_tail_fails ''/ad/0.log'' =
       [TailFile ''/ad/0.log'',
        Slog LError ''Could not tail Roblox log file'' [(''error'', AErr (Foreign ''permission denied''))]]
   \<and> armedTimers (Tail binary0 world_tail_fails ''/ad/0.log'') = []"
proof -
  have h: "res_TailFile world_tail_fails ''/ad/0.log'' = Inl (Foreign ''permission denied'')"
    by (simp add: world_tail_fails_def)
  show ?thesis using h Tail_open_failure [OF h, of binary0] by blast
qed

subsection \<open>Execute\<close>

lemma Execute_reaches_Run:
  assumes "fst (startMutexer (fst (connectActivity b w)) w) = None"
    and "Command (fst (connectActivity b w)) w args = Inr cmd"
  shows "fst (Execute b w args) = fst (classify (res_Run w cmd))"
  using assms by (simp add: Execute_def Let_def)

text \<open>
  C2. Once the child process has been run to completion: if its recorded exit code is the
  sentinel -1 of a killed process, \<^verbatim>\<open>Execute\<close> returns success; if the run failed and the
  exit code is any other, \<^verbatim>\<open>Execute\<close> returns that error wrapped as
  \<^verbatim>\<open>roblox process: ...\<close>.
\<close>

theorem Execute_classifies_exit:
  assumes "fst (startMutexer (fst (connectActivity b w)) w) = None"
    and "Command (fst (connectActivity b w)) w args = Inr cmd"
    and "run_state (res_Run w cmd) = Some ps"
  shows "(ExitCode (Some ps) = - 1 \<longrightarrow> fst (Execute b w args) = None)
       \<and> (\<forall>err. run_err (res_Run w cmd) = Some err \<and> ExitCode (Some ps) \<noteq> - 1 \<longrightarrow>
             fst (Execute b w args) = Some (Errorf [S ''roblox process''] (Some err)))"
proof -
  have "fst (Execute b w args) = fst (classify (res_Run w cmd))"
    using assms(1,2) by (rule Execute_reaches_Run)
  then show ?thesis
    using assms(3) by (auto simp: classify_def split: option.splits)
qed

lemma Fields_launcher0: "Fields ''gamemoderun -x'' = [''gamemoderun'', ''-x'']"
  by (simp add: Fields_def asciiSpace_def)

lemma Command_binary0:
  "Command binary0 world0 [''roblox-player:1''] =
     Inr \<lparr>Path = ''/usr/bin/gamemoderun'',
          Args = [''gamemoderun'', ''-x'', ''wine'', ''/v1/RobloxPlayerBeta.exe'', ''roblox-player:1'']\<rparr>"
  by (simp add: Command_def rewriteArgs_def binary0_def world0_def Fields_launcher0)

lemma connectActivity_binary0: "connectActivity binary0 world0 = (binary0, [ActivityConnect], True)"
  by (simp add: connectActivity_def binary0_def world0_def)

lemma startMutexer_binary0: "startMutexer binary0 world0 = (None, [])"
  by (simp add: startMutexer_def binary0_def)

theorem Execute_classifies_exit_witness:
  "fst (Execute binary0 world0 [''roblox-player:1'']) = None
   \<and> fst (Execute binary0 world_exit_1 [''roblox-player:1'']) =
       Some (Errorf [S ''roblox process''] (Some (Foreign ''exit status 1'')))"
proof -
  let ?cmd = "\<lparr>Path = ''/usr/bin/gamemoderun'',
          Args = [''gamemoderun'', ''-x'', ''wine'', ''/v1/RobloxPlayerBeta.exe'', ''roblox-player:1'']\<rparr>"
  have c0: "connectActivity binary0 world_exit_1 = (binary0, [ActivityConnect], True)"
    by (simp add: connectActivity_def binary0_def world_exit_1_def world0_def)
  have m0: "startMutexer binary0 world_exit_1 = (None, [])"
    by (simp add: startMutexer_def binary0_def)
  have k0: "Command binary0 world_exit_1 [''roblox-player:1''] = Inr ?cmd"
    by (simp add: Command_def rewriteArgs_def binary0_def world_exit_1_def world0_def Fields_launcher0)
  have r0: "run_state (res_Run world0 ?cmd) = Some (Signaled 9)"
    by (simp add: world0_def)
  have r1: "run_state (res_Run world_exit_1 ?cmd) = Some (Exited 1)"
    "run_err (res_Run world_exit_1 ?cmd) = Some (Foreign ''exit status 1'')"
    by (simp_all add: world_exit_1_def)
  have "fst (Execute binary0 world0 [''roblox-player:1'']) = None"
    using Execute_classifies_exit [of binary0 world0 "[''roblox-player:1'']" ?cmd "Signaled 9"]
    by (simp add: connectActivity_binary0 startMutexer_binary0 Command_binary0 r0)
  moreover have "fst (Execute binary0 world_exit_1 [''roblox-player:1'']) =
       Some (Errorf [S ''roblox process''] (Some (Foreign ''exit status 1'')))"
    using Execute_classifies_exit [of binary0 world_exit_1 "[''roblox-player:1'']" ?cmd "Exited 1"]
    by (simp add: c0 m0 k0 r1)
  ultimately show ?thesis by simp
qed

subsection \<open>Command\<close>

lemma HasPrefix_Nil: "HasPrefix [] p \<longleftrightarrow> p = []"
  by (cases p) simp_all

lemma rewriteArgs_total: "\<exists>args1. rewriteArgs args = Inr args1"
  by (cases args) (simp_all add: rewriteArgs_def HasPrefix_Nil)

text \<open>
  White space beyond ASCII cuts too: a launcher that is the no-break space U+00A0 alone has
  no token, and the ideographic space U+3000 separates two tokens. A byte \<^verbatim>\<open>0xA0\<close> that is
  not part of an encoding is no white space.
\<close>

lemma Fields_no_break_space: "Fields [CHR 0xC2, CHR 0xA0] = []"
  by (simp add: Fields_def IsSpace_def Let_def)

lemma Fields_ideographic_space:
  "Fields [CHR ''a'', CHR 0xE3, CHR 0x80, CHR 0x80, CHR ''b''] = [''a'', ''b'']"
  by (simp add: Fields_def IsSpace_def Let_def)

lemma Fields_stray_byte: "Fields [CHR ''a'', CHR 0xA0, CHR ''b''] = [[CHR ''a'', CHR 0xA0, CHR ''b'']]"
  by (simp add: Fields_def IsSpace_def RuneError_def Let_def)

text \<open>Without a token in the launcher, \<^verbatim>\<open>Command\<close> returns the wine command as it is and
  does not resolve a launcher.\<close>

lemma Command_no_launcher:
  assumes "Fields (Launcher (Config b)) = []" and "rewriteArgs args = Inr args1"
  shows "Command b w args = Inr (Wine w (filepath_Join w [Dir b, Executable w (Type b)]) args1)"
  using assms by (simp add: Command_def Let_def)

text \<open>
  C7. With a launcher configured that has at least one token, \<^verbatim>\<open>Command\<close> puts the
  launcher's tokens in front of the argument vector of the wine command and replaces its
  path by the resolved path of the launcher; when the launcher's path cannot be resolved it
  fails with the error wrapped as \<^verbatim>\<open>bad launcher: ...\<close> and returns no command.
\<close>

theorem Command_launcher:
  assumes "Fields (Launcher (Config b)) \<noteq> []"
  shows "\<exists>args1. rewriteArgs args = Inr args1
       \<and> (\<forall>p. res_LauncherPath w (Config b) = Inr p \<longrightarrow>
            (\<exists>cmd. Command b w args = Inr cmd
               \<and> Args cmd = Fields (Launcher (Config b))
                              @ Args (Wine w (filepath_Join w [Dir b, Executable w (Type b)]) args1)
               \<and> Path cmd = p))
       \<and> (\<forall>err. res_LauncherPath w (Config b) = Inl err \<longrightarrow>
            Command b w args = Inl (Errorf [S ''bad launcher''] (Some err)))"
proof -
  obtain args1 where a: "rewriteArgs args = Inr args1"
    using rewriteArgs_total by blast
  have l: "1 \<le> length (Fields (Launcher (Config b)))"
    using assms by (cases "Fields (Launcher (Config b))") simp_all
  show ?thesis
    using a l by (simp add: Command_def Let_def)
qed

theorem Command_launcher_witness:
  "Fields (Launcher (Config binary0)) \<noteq> []
   \<and> Command binary0 world0 [''roblox-player:1''] =
       Inr \<lparr>Path = ''/usr/bin/gamemoderun'',
            Args = [''gamemoderun'', ''-x'', ''wine'', ''/v1/RobloxPlayerBeta.exe'',
                    ''roblox-player:1'']\<rparr>
   \<and> Command binary0 world_bad_launcher [''roblox-player:1''] =
       Inl (Errorf [S ''bad launcher''] (Some (Foreign ''not found'')))"
proof -
  have f: "Fields (Launcher (Config binary0)) \<noteq> []"
    by (simp add: binary0_def Fields_launcher0)
  have "res_LauncherPath world_bad_launcher (Config binary0) = Inl (Foreign ''not found'')"
    by (simp add: world_bad_launcher_def)
  then have "Command binary0 world_bad_launcher [''roblox-player:1''] =
       Inl (Errorf [S ''bad launcher''] (Some (Foreign ''not found'')))"
    using Command_launcher [OF f, of "[''roblox-player:1'']" world_bad_launcher] by blast
  then show ?thesis using f Command_binary0 by simp
qed

subsection \<open>Init\<close>








subsection \<open>Run\<close>

lemma HandleProtocolURI_roblox: "HandleProtocolURI b ''roblox-'' = (b, [])"
  by (simp add: HandleProtocolURI_def Split_def handleURI_def)

lemma connectActivity_Channel:
  "Channel (Config (fst (connectActivity b w))) = Channel (Config b)"
  by (simp add: connectActivity_def split: option.splits)

lemma Execute_Channel:
  "Channel (Config (fst (snd (Execute b w args)))) = Channel (Config b)"
  by (simp add: Execute_def Let_def connectActivity_Channel split: option.splits sum.splits)

lemma Run_handler_state:
  "(case args of [a] \<Rightarrow> if a = ''roblox-'' then HandleProtocolURI b a else (b, []) | _ \<Rightarrow> (b, []))
     = (b, [])"
  by (simp add: HandleProtocolURI_roblox split: list.splits)

lemma Run_unfold:
  "Run b w args =
     (case fst (Init b w) of
        Some err \<Rightarrow> (Some (Errorf [S ''init '', T (Type b)] (Some err)), b, snd (Init b w))
      | None \<Rightarrow>
          (case fst (res_Setup w b) of
             Some err \<Rightarrow>
               (Some (Errorf [S ''failed to setup roblox''] (Some err)), snd (res_Setup w b),
                snd (Init b w) @ [SplashSetDesc (Channel (Config b))])
           | None \<Rightarrow>
               (case fst (Execute (snd (res_Setup w b)) w args) of
                  Some err \<Rightarrow>
                    (Some (Errorf [S ''failed to run roblox''] (Some err)),
                     fst (snd (Execute (snd (res_Setup w b)) w args)),
                     snd (Init b w) @ [SplashSetDesc (Channel (Config b))]
                       @ snd (snd (Execute (snd (res_Setup w b)) w args)))
                | None \<Rightarrow>
                    (None, fst (snd (Execute (snd (res_Setup w b)) w args)),
                     snd (Init b w) @ [SplashSetDesc (Channel (Config b))]
                       @ snd (snd (Execute (snd (res_Setup w b)) w args))))))"
  unfolding Run_def Let_def Run_handler_state by (simp split: option.splits)

text \<open>
  C9. \<^verbatim>\<open>Run\<close> calls the protocol-URI handler only when the arguments are the single
  string \<^verbatim>\<open>roblox-\<close>, on which the handler changes nothing and logs nothing. So \<^verbatim>\<open>Run\<close>
  shows the channel it was given in the splash window, and, \<^verbatim>\<open>Setup\<close> leaving the channel
  as it is, the channel after \<^verbatim>\<open>Run\<close> is the channel before, for every list of arguments.
\<close>

theorem Run_keeps_channel:
  assumes "\<forall>b1. Channel (Config (snd (res_Setup w b1))) = Channel (Config b1)"
  shows "HandleProtocolURI b ''roblox-'' = (b, [])
       \<and> Channel (Config (fst (snd (Run b w args)))) = Channel (Config b)
       \<and> (fst (Init b w) = None \<longrightarrow>
            SplashSetDesc (Channel (Config b)) \<in> set (snd (snd (Run b w args))))"
proof -
  have s: "Channel (Config (snd (res_Setup w b))) = Channel (Config b)"
    using assms by simp
  have "Channel (Config (fst (snd (Run b w args)))) = Channel (Config b)"
    by (simp add: Run_unfold Execute_Channel s split: option.splits)
  moreover have "fst (Init b w) = None \<longrightarrow>
            SplashSetDesc (Channel (Config b)) \<in> set (snd (snd (Run b w args)))"
    by (simp add: Run_unfold split: option.splits)
  ultimately show ?thesis by (simp add: HandleProtocolURI_roblox)
qed

theorem Run_keeps_channel_witness:
  "Channel (Config (fst (snd (Run binary0 world0 [''roblox-player:1+channel:zbeta''])))) = ''LIVE''
   \<and> Channel (Config (fst (snd (Run binary0 world0 [''roblox-''])))) = ''LIVE''
   \<and> Channel (Config (fst (snd (Run binary0 world0 [''channel:zbeta''])))) = ''LIVE''"
proof -
  have s: "\<forall>b1. Channel (Config (snd (res_Setup world0 b1))) = Channel (Config b1)"
    by (simp add: world0_def)
  have c: "Channel (Config binary0) = ''LIVE''" by (simp add: binary0_def)
  show ?thesis
    using Run_keeps_channel [OF s, of binary0 "[''roblox-player:1+channel:zbeta'']"]
      Run_keeps_channel [OF s, of binary0 "[''roblox-'']"]
      Run_keeps_channel [OF s, of binary0 "[''channel:zbeta'']"] c
    by simp
qed

subsection \<open>RobloxLogFile\<close>

lemma openWatchers_append: "openWatchers (xs @ ys) = openWatchers xs + openWatchers ys"
  by (induction xs rule: openWatchers.induct) simp_all

lemma watchLoop_logs: "openWatchers (snd (watchLoop rs)) = 0"
  by (induction rs rule: watchLoop.induct) simp_all

lemma watchLoop_work: "filter isPostLaunchWork (snd (watchLoop rs)) = []"
  by (induction rs rule: watchLoop.induct) simp_all

lemma watchLoop_found:
  "noCreate pre \<Longrightarrow> Has ops Create \<Longrightarrow>
   watchLoop (pre @ Event ops name # post) = (Inr name, watchErrorLogs pre)"
  by (induction pre rule: noCreate.induct) simp_all

lemma watchLoop_timeout:
  "noCreate rs \<Longrightarrow> watchLoop rs = (Inl LogNotFound, watchErrorLogs rs)"
  by (induction rs rule: noCreate.induct) simp_all

lemma RobloxLogFile_closed: "openWatchers (snd (RobloxLogFile w)) = 0"
  by (simp add: RobloxLogFile_def Let_def openWatchers_append watchLoop_logs
           split: sum.splits option.splits)

lemma RobloxLogFile_work: "filter isPostLaunchWork (snd (RobloxLogFile w)) = []"
  by (simp add: RobloxLogFile_def Let_def watchLoop_work split: sum.splits option.splits)

lemma RobloxLogFile_watching:
  assumes "res_AppDataDir w = Inr ad"
    and "res_MkdirAll w (filepath_Join w [ad, ''Local'', ''Roblox'', ''logs'']) = None"
    and "res_NewWatcher w = None"
    and "res_WatcherAdd w (filepath_Join w [ad, ''Local'', ''Roblox'', ''logs'']) = None"
  shows "RobloxLogFile w =
           (fst (watchLoop (watch_received w)),
            [MkdirAll (filepath_Join w [ad, ''Local'', ''Roblox'', ''logs'']), NewWatcher,
             WatcherAdd (filepath_Join w [ad, ''Local'', ''Roblox'', ''logs''])]
            @ snd (watchLoop (watch_received w)) @ [WatcherClose])"
  using assms by (simp add: RobloxLogFile_def Let_def)

text \<open>
  C5. Log discovery leaves no watcher open, whatever way it returns. When the directory
  has been made and is watched, it returns the name of the first event that is the
  creation of a file, if there is one before the timer fires, and fails with the
  log-not-found error if there is none; the watcher errors received before that are
  logged, each one, and do not end the discovery.
\<close>

theorem RobloxLogFile_discovery:
  "openWatchers (snd (RobloxLogFile w)) = 0
   \<and> (\<forall>ad dir. res_AppDataDir w = Inr ad
          \<and> dir = filepath_Join w [ad, ''Local'', ''Roblox'', ''logs'']
          \<and> res_MkdirAll w dir = None \<and> res_NewWatcher w = None
          \<and> res_WatcherAdd w dir = None \<longrightarrow>
        (\<forall>pre ops name post.
            watch_received w = pre @ Event ops name # post \<and> noCreate pre \<and> Has ops Create \<longrightarrow>
            RobloxLogFile w =
              (Inr name,
               [MkdirAll dir, NewWatcher, WatcherAdd dir] @ watchErrorLogs pre @ [WatcherClose]))
        \<and> (noCreate (watch_received w) \<longrightarrow>
            RobloxLogFile w =
              (Inl LogNotFound,
               [MkdirAll dir, NewWatcher, WatcherAdd dir]
               @ watchErrorLogs (watch_received w) @ [WatcherClose])))"
proof -
  have "RobloxLogFile w =
          (Inr name, [MkdirAll dir, NewWatcher, WatcherAdd dir] @ watchErrorLogs pre @ [WatcherClose])"
    if "res_AppDataDir w = Inr ad" "dir = filepath_Join w [ad, ''Local'', ''Roblox'', ''logs'']"
      "res_MkdirAll w dir = None" "res_NewWatcher w = None" "res_WatcherAdd w dir = None"
      "watch_received w = pre @ Event ops name # post" "noCreate pre" "Has ops Create"
    for ad dir pre ops name post
    using that RobloxLogFile_watching [of w ad] by (simp add: watchLoop_found)
  moreover have "RobloxLogFile w =
          (Inl LogNotFound,
           [MkdirAll dir, NewWatcher, WatcherAdd dir] @ watchErrorLogs (watch_received w) @ [WatcherClose])"
    if "res_AppDataDir w = Inr ad" "dir = filepath_Join w [ad, ''Local'', ''Roblox'', ''logs'']"
      "res_MkdirAll w dir = None" "res_NewWatcher w = None" "res_WatcherAdd w dir = None"
      "noCreate (watch_received w)"
    for ad dir
    using that RobloxLogFile_watching [of w ad] by (simp add: watchLoop_timeout)
  ultimately show ?thesis
    using RobloxLogFile_closed [of w] by blast
qed

theorem RobloxLogFile_discovery_witness:
  "RobloxLogFile world0 =
     (Inr ''/ad/0.log'',
      [MkdirAll ''/ad/Local/Roblox/logs'', NewWatcher, WatcherAdd ''/ad/Local/Roblox/logs'',
       Slog LError ''Recieved fsnotify watcher error'' [(''error'', AErr (Foreign ''overflow''))],
       WatcherClose])
   \<and> fst (RobloxLogFile world_no_log) = Inl LogNotFound
   \<and> openWatchers (snd (RobloxLogFile world_no_log)) = 0"
proof -
  have h0: "res_AppDataDir world0 = Inr ''/ad''
      \<and> ''/ad/Local/Roblox/logs'' = filepath_Join world0 [''/ad'', ''Local'', ''Roblox'', ''logs'']
      \<and> res_MkdirAll world0 ''/ad/Local/Roblox/logs'' = None \<and> res_NewWatcher world0 = None
      \<and> res_WatcherAdd world0 ''/ad/Local/Roblox/logs'' = None"
    by (simp add: world0_def)
  have h1: "res_AppDataDir world_no_log = Inr ''/ad''
      \<and> ''/ad/Local/Roblox/logs'' = filepath_Join world_no_log [''/ad'', ''Local'', ''Roblox'', ''logs'']
      \<and> res_MkdirAll world_no_log ''/ad/Local/Roblox/logs'' = None \<and> res_NewWatcher world_no_log = None
      \<and> res_WatcherAdd world_no_log ''/ad/Local/Roblox/logs'' = None"
    by (simp add: world_no_log_def world0_def)
  note t0 = RobloxLogFile_discovery [of world0, THEN conjunct2, rule_format, OF h0]
  note t1 = RobloxLogFile_discovery [of world_no_log, THEN conjunct2, rule_format, OF h1]
  have a: "RobloxLogFile world0 =
     (Inr ''/ad/0.log'',
      [MkdirAll ''/ad/Local/Roblox/logs'', NewWatcher, WatcherAdd ''/ad/Local/Roblox/logs'']
      @ watchErrorLogs [WatchError (Foreign ''overflow''), Event [Write] ''/ad/x''] @ [WatcherClose])"
    by (rule t0 [THEN conjunct1, rule_format,
          of "[WatchError (Foreign ''overflow''), Event [Write] ''/ad/x'']" "[Create]" "''/ad/0.log''"
             "[Event [Create] ''/ad/1.log'']"])
       (simp add: world0_def Has_def)
  have "noCreate (watch_received world_no_log)"
    by (simp add: world_no_log_def Has_def)
  then have b: "fst (RobloxLogFile world_no_log) = Inl LogNotFound"
    using t1 [THEN conjunct2] by simp
  have c: "openWatchers (snd (RobloxLogFile world_no_log)) = 0"
    using RobloxLogFile_discovery [of world_no_log] by blast
  show ?thesis using a b c by simp
qed

subsection \<open>The work after the launch\<close>

text \<open>
  C8. When the log file is not found, the goroutine for the work after the launch logs the
  failure and returns: it does not close the splash window, does not register with
  GameMode, does not tail, and arms no kill signal. What \<^verbatim>\<open>Execute\<close> returns is still
  decided by how \<^verbatim>\<open>cmd.Run\<close> ended.
\<close>

theorem postLaunch_log_not_found:
  assumes "fst (RobloxLogFile w) = Inl err"
  shows "postLaunch b w =
           snd (RobloxLogFile w)
           @ [Slog LError ''Failed to find Roblox log file'' [(''error'', AErr err)]]
       \<and> filter isPostLaunchWork (postLaunch b w) = []
       \<and> armedTimers (postLaunch b w) = []
       \<and> (\<forall>cmd. fst (startMutexer (fst (connectActivity b w)) w) = None
                \<and> Command (fst (connectActivity b w)) w args = Inr cmd \<longrightarrow>
              fst (Execute b w args) = fst (classify (res_Run w cmd)))"
proof -
  have p: "postLaunch b w =
           snd (RobloxLogFile w)
           @ [Slog LError ''Failed to find Roblox log file'' [(''error'', AErr err)]]"
    using assms by (simp add: postLaunch_def)
  have f: "filter isPostLaunchWork (postLaunch b w) = []"
    by (simp add: p RobloxLogFile_work)
  have "armedTimers (postLaunch b w) = filter (\<lambda>e. e = Go (KillSelfAfter DieTimeout SIGUSR1))
          (filter isPostLaunchWork (postLaunch b w))"
    unfolding armedTimers_def filter_filter by (rule filter_cong) auto
  then have "armedTimers (postLaunch b w) = []"
    using f by simp
  then show ?thesis
    using p f Execute_reaches_Run [of b w args] by blast
qed

theorem postLaunch_log_not_found_witness:
  "fst (RobloxLogFile world_no_log) = Inl LogNotFound
   \<and> postLaunch binary0 world_no_log =
       snd (RobloxLogFile world_no_log)
       @ [Slog LError ''Failed to find Roblox log file'' [(''error'', AErr LogNotFound)]]
   \<and> filter isPostLaunchWork (postLaunch binary0 world_no_log) = []
   \<and> fst (Execute binary0 world_no_log [''roblox-player:1'']) = None"
proof -
  have h: "fst (RobloxLogFile world_no_log) = Inl LogNotFound"
    by (simp add: RobloxLogFile_def Let_def world_no_log_def world0_def Has_def)
  let ?cmd = "\<lparr>Path = ''/usr/bin/gamemoderun'',
          Args = [''gamemoderun'', ''-x'', ''wine'', ''/v1/RobloxPlayerBeta.exe'', ''roblox-player:1'']\<rparr>"
  have c0: "connectActivity binary0 world_no_log = (binary0, [ActivityConnect], True)"
    by (simp add: connectActivity_def binary0_def world_no_log_def world0_def)
  have m0: "startMutexer binary0 world_no_log = (None, [])"
    by (simp add: startMutexer_def binary0_def)
  have k0: "Command binary0 world_no_log [''roblox-player:1''] = Inr ?cmd"
    by (simp add: Command_def rewriteArgs_def binary0_def world_no_log_def world0_def Fields_launcher0)
  have r: "fst (classify (res_Run world_no_log ?cmd)) = None"
    by (simp add: classify_def world_no_log_def world0_def)
  note t = postLaunch_log_not_found [OF h, of binary0 "[''roblox-player:1'']"]
  have "fst (Execute binary0 world_no_log [''roblox-player:1'']) = fst (classify (res_Run world_no_log ?cmd))"
    by (rule t [THEN conjunct2, THEN conjunct2, THEN conjunct2, rule_format]) (simp add: c0 m0 k0)
  then have e: "fst (Execute binary0 world_no_log [''roblox-player:1'']) = None"
    using r by simp
  show ?thesis using h t e by blast
qed

subsection \<open>The signal supervisor\<close>











end
